theory Spec2Isabelle
  imports Complex_Main
begin

section \<open>Python values shared by both modules\<close>

text \<open>
  Every exception the modelled code can raise is a value; a function that can raise
  returns \<open>py_error + 'a\<close> with \<open>Inl\<close> carrying the exception.
  Floating-point numbers are modelled as reals.
\<close>

datatype py_error =
    IndexError
  | ZeroDivisionError
  | ValueError
  | UnboundLocalError
  | AttributeError
  | LinAlgError

text \<open>
  Python sequence indexing: position \<open>i\<close> of a sequence of \<open>len\<close> items, where an index
  in \<open>-len ..< 0\<close> counts from the end and anything else out of range raises.
\<close>

definition list_index :: "nat \<Rightarrow> int \<Rightarrow> nat option" where
  "list_index len i =
     (if 0 \<le> i \<and> i < int len then Some (nat i)
      else if i < 0 \<and> - int len \<le> i then Some (nat (int len + i))
      else None)"

definition py_get :: "'a list \<Rightarrow> int \<Rightarrow> py_error + 'a" where
  "py_get xs i =
     (case list_index (length xs) i of
        None \<Rightarrow> Inl IndexError
      | Some j \<Rightarrow> Inr (xs ! j))"

section \<open>evaluation/metrics.py\<close>

subsection \<open>Data\<close>

text \<open>
  A predicted edge is the triple \<open>(st, ed, w)\<close>. The ground truth is a networkx
  \<open>DiGraph\<close> whose nodes are the dense indices \<open>0 ..< number_of_nodes\<close>; only
  \<open>number_of_nodes\<close>, \<open>has_edge\<close> and \<open>out_degree\<close> are used by the metrics.
\<close>

type_synonym edge = "int \<times> int \<times> real"

record digraph =
  number_of_nodes :: nat
  edges :: "(int \<times> int) list"

definition has_edge :: "digraph \<Rightarrow> int \<Rightarrow> int \<Rightarrow> bool" where
  "has_edge g u v = ((u, v) \<in> set (edges g))"

definition out_degree :: "digraph \<Rightarrow> int \<Rightarrow> nat" where
  "out_degree g u = length (remdups (filter (\<lambda>e. fst e = u) (edges g)))"

definition precision_pos :: "int list" where
  "precision_pos = [2, 10, 100, 200, 300, 500, 1000]"

subsection \<open>computePrecisionCurve\<close>

text \<open>
  \<open>sorted(predicted_edge_list, key=lambda x: x[2], reverse=True)\<close>: a stable sort,
  descending by score.
\<close>

definition sorted_edges :: "edge list \<Rightarrow> edge list" where
  "sorted_edges predicted_edge_list = sort_key (\<lambda>x. - snd (snd x)) predicted_edge_list"

text \<open>
  The scoring loop over the ranked edges; \<open>correct_edge\<close> is the running count and
  \<open>i\<close> the position of the head of the list.
\<close>

fun score_loop :: "digraph \<Rightarrow> edge list \<Rightarrow> nat \<Rightarrow> nat \<Rightarrow> real list \<times> real list" where
  "score_loop g [] correct_edge i = ([], [])"
| "score_loop g (e # es) correct_edge i =
     (let hit = has_edge g (fst e) (fst (snd e));
          c = (if hit then correct_edge + 1 else correct_edge);
          rest = score_loop g es c (i + 1)
      in (real c / real (i + 1) # fst rest, (if hit then 1 else 0) # snd rest))"

definition computePrecisionCurve :: "edge list \<Rightarrow> digraph \<Rightarrow> int \<Rightarrow> real list \<times> real list" where
  "computePrecisionCurve predicted_edge_list true_digraph max_k =
     (let k = (if max_k = - 1 then int (length predicted_edge_list)
               else min max_k (int (length predicted_edge_list)))
      in score_loop true_digraph (take (nat k) (sorted_edges predicted_edge_list)) 0 0)"

subsection \<open>computeMAP\<close>

text \<open>The loop \<open>node_edges[st].append((st, ed, w))\<close> over the predictions.\<close>

fun fill_node_edges :: "edge list list \<Rightarrow> edge list \<Rightarrow> py_error + edge list list" where
  "fill_node_edges node_edges [] = Inr node_edges"
| "fill_node_edges node_edges (e # es) =
     (case list_index (length node_edges) (fst e) of
        None \<Rightarrow> Inl IndexError
      | Some st \<Rightarrow> fill_node_edges (node_edges[st := node_edges ! st @ [e]]) es)"

definition average_precision :: "real list \<times> real list \<Rightarrow> real" where
  "average_precision curve =
     (let precision_scores = fst curve;
          delta_factors = snd curve;
          precision_rectified = map (\<lambda>(p, d). p * d) (zip precision_scores delta_factors)
      in if sum_list delta_factors = 0 then 0
         else sum_list precision_rectified / sum_list delta_factors)"

text \<open>The loop over the nodes, carrying \<open>node_AP\<close> and \<open>count\<close>.\<close>

fun node_loop ::
  "digraph \<Rightarrow> edge list list \<Rightarrow> int \<Rightarrow> nat list \<Rightarrow> real list \<Rightarrow> nat \<Rightarrow> real list \<times> nat" where
  "node_loop g node_edges max_k [] node_AP count = (node_AP, count)"
| "node_loop g node_edges max_k (i # is) node_AP count =
     (if out_degree g (int i) = 0 then node_loop g node_edges max_k is node_AP count
      else node_loop g node_edges max_k is
             (node_AP[i := average_precision (computePrecisionCurve (node_edges ! i) g max_k)])
             (count + 1))"

definition computeMAP :: "edge list \<Rightarrow> digraph \<Rightarrow> int \<Rightarrow> py_error + real" where
  "computeMAP predicted_edge_list true_digraph max_k =
     (let node_num = number_of_nodes true_digraph
      in case fill_node_edges (replicate node_num []) predicted_edge_list of
           Inl err \<Rightarrow> Inl err
         | Inr node_edges \<Rightarrow>
             (let r = node_loop true_digraph node_edges max_k [0 ..< node_num]
                        (replicate node_num 0) 0
              in if snd r = 0 then Inl ZeroDivisionError
                 else Inr (sum_list (fst r) / real (snd r))))"

subsection \<open>checkedges and computePrecisionCurve_changed\<close>

text \<open>
  The second argument of \<open>checkedges\<close> is either one edge tuple or a list of edges
  (the \<open>type(e) is tuple\<close> test).
\<close>

datatype removed = Tuple edge | EdgeList "edge list"

definition same_ends :: "edge \<Rightarrow> edge \<Rightarrow> bool" where
  "same_ends k e = (fst (snd k) = fst (snd e) \<and> fst k = fst e)"

definition checkedges :: "edge list \<Rightarrow> removed \<Rightarrow> bool" where
  "checkedges edge_list e =
     foldl (\<lambda>val k.
              case e of
                Tuple t \<Rightarrow> (if same_ends k t then True else val)
              | EdgeList l \<Rightarrow> foldl (\<lambda>v ee. if same_ends k ee then True else v) val l)
           False edge_list"

text \<open>
  The loop over \<open>node_edges_rm\<close>; \<open>n\<close> is \<open>len(predicted_edge_list)\<close> and \<open>j\<close> the
  index of the head of the list.
\<close>

fun removed_loop ::
  "edge list \<Rightarrow> removed list \<Rightarrow> nat \<Rightarrow> nat \<Rightarrow> nat \<Rightarrow> real list \<times> real list" where
  "removed_loop predicted_edge_list [] correct_edge n j = ([], [])"
| "removed_loop predicted_edge_list (r # rs) correct_edge n j =
     (let miss = checkedges predicted_edge_list r;
          c = (if \<not> miss then correct_edge + 1 else correct_edge);
          rest = removed_loop predicted_edge_list rs c n (j + 1)
      in (real c / real (n + j + 1) # fst rest, (if \<not> miss then 1 else 0) # snd rest))"

text \<open>The value of \<open>correct_edge\<close> after the first loop.\<close>

definition correct_count :: "digraph \<Rightarrow> edge list \<Rightarrow> nat" where
  "correct_count g es = length (filter (\<lambda>e. has_edge g (fst e) (fst (snd e))) es)"

definition computePrecisionCurve_changed ::
  "edge list \<Rightarrow> digraph \<Rightarrow> removed list \<Rightarrow> int \<Rightarrow> real list \<times> real list" where
  "computePrecisionCurve_changed predicted_edge_list true_digraph node_edges_rm max_k =
     (let total = int (length predicted_edge_list) + int (length node_edges_rm);
          k = (if max_k = - 1 then total else min max_k total);
          ranked = sorted_edges predicted_edge_list;
          first = score_loop true_digraph ranked 0 0;
          second = removed_loop predicted_edge_list node_edges_rm
                     (correct_count true_digraph ranked) (length predicted_edge_list) 0
      in (fst first @ fst second, snd first @ snd second))"

subsection \<open>getPrecisionReport\<close>

text \<open>
  \<open>fmt\<close> stands for the \<open>'%f'\<close> conversion of a float; the tab character is
  \<open>CHR 0x09\<close>.
\<close>

fun report_loop :: "(real \<Rightarrow> string) \<Rightarrow> real list \<Rightarrow> int list \<Rightarrow> string \<Rightarrow> py_error + string" where
  "report_loop fmt prec_curv [] result_str = Inr result_str"
| "report_loop fmt prec_curv (p # ps) result_str =
     (if p < int (length prec_curv)
      then (case py_get prec_curv (p - 1) of
              Inl err \<Rightarrow> Inl err
            | Inr v \<Rightarrow> report_loop fmt prec_curv ps (result_str @ CHR 0x09 # fmt v))
      else report_loop fmt prec_curv ps (result_str @ [CHR 0x09, CHR ''-'']))"

definition getPrecisionReport :: "(real \<Rightarrow> string) \<Rightarrow> real list \<Rightarrow> int \<Rightarrow> py_error + string" where
  "getPrecisionReport fmt prec_curv edge_num =
     (case report_loop fmt prec_curv (precision_pos @ [edge_num]) [] of
        Inl err \<Rightarrow> Inl err
      | Inr result_str \<Rightarrow> Inr (drop 1 result_str))"

section \<open>embedding/graphFac_dynamic.py\<close>

subsection \<open>Arrays\<close>

text \<open>
  A one-dimensional array is a list, a square matrix a list of rows. A two-dimensional
  array whose shape matters even when it has no row carries its number of columns; its
  shape is \<open>(length (rows a), ncols a)\<close>.
\<close>

type_synonym vec = "real list"
type_synonym matrix = "real list list"

record ndarray =
  ncols :: nat
  rows :: matrix

definition dot :: "vec \<Rightarrow> vec \<Rightarrow> real" where
  "dot u v = sum_list (map2 (*) u v)"

definition scale :: "real \<Rightarrow> vec \<Rightarrow> vec" where
  "scale c v = map ((*) c) v"

definition vadd :: "vec \<Rightarrow> vec \<Rightarrow> vec" where
  "vadd u v = map2 (+) u v"

definition vsub :: "vec \<Rightarrow> vec \<Rightarrow> vec" where
  "vsub u v = map2 (-) u v"

definition msub :: "matrix \<Rightarrow> matrix \<Rightarrow> matrix" where
  "msub a b = map2 vsub a b"

definition smul :: "real \<Rightarrow> matrix \<Rightarrow> matrix" where
  "smul c a = map (scale c) a"

definition matmul :: "matrix \<Rightarrow> matrix \<Rightarrow> matrix" where
  "matmul a b = map (\<lambda>r. map (\<lambda>c. dot r c) (transpose b)) a"

definition eye :: "nat \<Rightarrow> matrix" where
  "eye n = map (\<lambda>i. map (\<lambda>j. if i = j then 1 else 0) [0 ..< n]) [0 ..< n]"

text \<open>\<open>np.linalg.norm\<close> of a matrix: the Frobenius norm.\<close>

definition norm_fro :: "matrix \<Rightarrow> real" where
  "norm_fro a = sqrt (sum_list (map (\<lambda>x. x * x) (concat a)))"

text \<open>
  \<open>np.allclose(a, b)\<close> with the default tolerances, on arrays of one shape:
  every entry satisfies \<open>|a - b| \<le> atol + rtol * |b|\<close>.
\<close>

definition allclose :: "matrix \<Rightarrow> matrix \<Rightarrow> bool" where
  "allclose a b =
     list_all (\<lambda>(ra, rb). list_all (\<lambda>(x, y). \<bar>x - y\<bar> \<le> 1 / 10 ^ 8 + \<bar>y\<bar> / 10 ^ 5) (zip ra rb))
       (zip a b)"

text \<open>
  Broadcasting of an elementwise operation on two square matrices: the sizes must be
  equal or one of them 1, and a 1 x 1 matrix is read at \<open>(0, 0)\<close> everywhere.
\<close>

definition bdim :: "nat \<Rightarrow> nat \<Rightarrow> nat option" where
  "bdim a b = (if a = b then Some a else if a = 1 then Some b else if b = 1 then Some a else None)"

definition bget :: "matrix \<Rightarrow> nat \<Rightarrow> nat \<Rightarrow> real" where
  "bget m i j = (if length m = 1 then m ! 0 ! 0 else m ! i ! j)"

definition broadcast_sub :: "matrix \<Rightarrow> matrix \<Rightarrow> py_error + matrix" where
  "broadcast_sub a b =
     (case bdim (length a) (length b) of
        None \<Rightarrow> Inl ValueError
      | Some n \<Rightarrow> Inr (map (\<lambda>i. map (\<lambda>j. bget a i j - bget b i j) [0 ..< n]) [0 ..< n]))"

text \<open>
  The two numpy routines whose results are not determined by the program: the samples of
  \<open>np.random.randn\<close> (\<open>randn c i j\<close> is entry \<open>(i, j)\<close> of the array returned by call
  number \<open>c\<close>) and \<open>np.linalg.inv\<close>, which raises \<open>LinAlgError\<close> on a singular matrix.
\<close>

record numpy =
  randn :: "nat \<Rightarrow> nat \<Rightarrow> nat \<Rightarrow> real"
  linalg_inv :: "matrix \<Rightarrow> py_error + matrix"

subsection \<open>Graph snapshots\<close>

text \<open>
  Modelled from the spec: \<open>graph_util.transform_DiGraph_to_adj\<close> is not among the
  sources; by the spec it converts a graph object whose nodes are the dense indices
  \<open>0 ..< N\<close> into the dense \<open>N x N\<close> adjacency matrix. A snapshot is its node count and
  its edge weights, 0 where there is no edge.
\<close>

record snapshot =
  snap_nodes :: nat
  snap_weight :: "nat \<Rightarrow> nat \<Rightarrow> real"

definition transform_DiGraph_to_adj :: "snapshot \<Rightarrow> matrix" where
  "transform_DiGraph_to_adj g =
     map (\<lambda>i. map (\<lambda>j. snap_weight g i j) [0 ..< snap_nodes g]) [0 ..< snap_nodes g]"

subsection \<open>The GraphFactorization object\<close>

text \<open>
  \<open>np.copy(x)\<close> of what \<open>learn_embedding\<close> returned: an array, or the zero-dimensional
  object array that wraps \<open>None\<close>.
\<close>

datatype embedding = NoneArray | Array ndarray

datatype kappas_value = Scalar real | PerNode vec

datatype message =
    NotSymmetric
  | InitFromPrev
  | Objective nat real real real real
  | DelValues nat real real real real

text \<open>
  The attributes of the object. An attribute that \<open>__init__\<close> does not set is \<open>None\<close>
  until it is assigned (\<open>self_Xs\<close> is \<open>[]\<close>). The last two fields are not attributes:
  the lines printed so far and the number of calls of \<open>np.random.randn\<close> so far.
\<close>

record GraphFactorization =
  self_d :: nat
  self_eta :: real
  self_regu :: real
  self_n_iter :: int
  self_n_iter_sub :: int
  self_kappa :: real
  self_initEmbed :: "ndarray option"
  self_X :: "matrix option"
  self_node_num :: "nat option"
  self_num_iter :: "int option"
  self_kappas :: "kappas_value option"
  self_Xs :: "embedding list"
  printed :: "message list"
  randn_calls :: nat

subsection \<open>getFVal\<close>

definition getFVal :: "GraphFactorization \<Rightarrow> matrix \<Rightarrow> matrix \<Rightarrow> ndarray option \<Rightarrow> real list" where
  "getFVal self adj_mtx x prev_step_emb =
     (let f1 = (norm_fro (msub adj_mtx (matmul x (transpose x)))) ^ 2;
          f2 = self_regu self * (norm_fro x) ^ 2;
          f3 = (case prev_step_emb of
                  None \<Rightarrow> 0
                | Some p \<Rightarrow>
                    self_kappa self *
                      (norm_fro (msub (map (take (ncols p)) (take (length (rows p)) x)) (rows p))) ^ 2)
      in [f1, f2, f3, f1 + f2 + f3])"

subsection \<open>learn_embedding\<close>

text \<open>\<open>np.where(A > 0)\<close>: the index pairs of the positive entries, in row-major order.\<close>

definition edgeList :: "matrix \<Rightarrow> (nat \<times> nat) list" where
  "edgeList a =
     concat (map (\<lambda>i. map (\<lambda>j. (i, j)) (filter (\<lambda>j. a ! i ! j > 0) [0 ..< length (a ! i)]))
               [0 ..< length a])"

text \<open>
  A row of the previous embedding as it is read against a row of \<open>d\<close> entries: itself,
  or its single entry repeated when the previous embedding has one column.
\<close>

definition prev_row :: "nat \<Rightarrow> ndarray \<Rightarrow> nat \<Rightarrow> vec" where
  "prev_row d p i = (if ncols p = d then rows p ! i else replicate d (rows p ! i ! 0))"

text \<open>
  The local variables \<open>delPhi, delPhi1, delPhi2, delPhi3\<close> are assigned together in the
  body of the edge loop and are unbound until then.
\<close>

type_synonym dels = "(vec \<times> vec \<times> vec \<times> vec) option"

text \<open>One pass of the body of the loop over \<open>zip(edgeList[0], edgeList[1])\<close>.\<close>

definition edge_step ::
  "GraphFactorization \<Rightarrow> matrix \<Rightarrow> ndarray option \<Rightarrow> matrix \<times> dels \<Rightarrow> nat \<times> nat \<Rightarrow> matrix \<times> dels" where
  "edge_step self a prevEmbed st e =
     (let x = fst st; i = fst e; j = snd e
      in if i \<ge> j then st
         else
           (let delPhi1 = scale (- (a ! i ! j - dot (x ! i) (x ! j))) (x ! j);
                delPhi2 = scale (self_regu self) (x ! i);
                delPhi3 = (case prevEmbed of
                             None \<Rightarrow> replicate (self_d self) 0
                           | Some p \<Rightarrow>
                               if i < length (rows p)
                               then scale (self_kappa self) (vsub (x ! i) (prev_row (self_d self) p i))
                               else replicate (self_d self) 0);
                delPhi = vadd (vadd delPhi1 delPhi2) delPhi3
            in (x[i := vsub (x ! i) (scale (self_eta self) delPhi)],
                Some (delPhi, delPhi1, delPhi2, delPhi3))))"

text \<open>
  The loop \<open>for iter_id in range(self._num_iter)\<close>, over the remaining iteration numbers.
  The second diagnostic line reads entry 0 of the four gradient vectors.
\<close>

fun sgd_loop ::
  "GraphFactorization \<Rightarrow> matrix \<Rightarrow> ndarray option \<Rightarrow> nat list \<Rightarrow> matrix \<times> dels \<times> message list
     \<Rightarrow> py_error + matrix \<times> message list" where
  "sgd_loop self a prevEmbed [] st = Inr (fst st, snd (snd st))"
| "sgd_loop self a prevEmbed (iter_id # rest) st =
     (let x = fst st; out = snd (snd st);
          f = getFVal self a x prevEmbed;
          out1 = (if iter_id mod 100 = 0
                  then out @ [Objective iter_id (f ! 3) (f ! 0) (f ! 1) (f ! 2)] else out);
          st1 = foldl (edge_step self a prevEmbed) (x, fst (snd st)) (edgeList a)
      in if iter_id mod 100 = 0
         then (case snd st1 of
                 None \<Rightarrow> Inl UnboundLocalError
               | Some ds \<Rightarrow>
                   if self_d self = 0 then Inl IndexError
                   else sgd_loop self a prevEmbed rest
                          (fst st1, snd st1,
                           out1 @ [DelValues iter_id (fst ds ! 0) (fst (snd ds) ! 0)
                                     (fst (snd (snd ds)) ! 0) (snd (snd (snd ds)) ! 0)]))
         else sgd_loop self a prevEmbed rest (fst st1, snd st1, out1))"

text \<open>\<open>0.01 * np.random.randn(node_num, d)\<close>, for the call numbered \<open>c\<close>.\<close>

definition random_init :: "numpy \<Rightarrow> nat \<Rightarrow> nat \<Rightarrow> nat \<Rightarrow> matrix" where
  "random_init lib c node_num d =
     map (\<lambda>i. map (\<lambda>j. randn lib c i j / 100) [0 ..< d]) [0 ..< node_num]"

text \<open>
  \<open>self._X[:prevEmbed.shape[0], :] = np.copy(prevEmbed)\<close>: the value must broadcast to
  the shape of the slice, else numpy raises \<open>ValueError\<close>.
\<close>

definition assign_prev :: "nat \<Rightarrow> matrix \<Rightarrow> ndarray \<Rightarrow> py_error + matrix" where
  "assign_prev d x p =
     (if (length (rows p) \<le> length x \<or> length (rows p) = 1) \<and> (ncols p = d \<or> ncols p = 1)
      then Inr (map (prev_row d p) [0 ..< min (length (rows p)) (length x)]
                @ drop (length (rows p)) x)
      else Inl ValueError)"

text \<open>
  The loop and the return of \<open>learn_embedding\<close>, from the state in which \<open>self._X\<close> and
  \<open>self._num_iter\<close> are set.
\<close>

definition run_sgd ::
  "GraphFactorization \<Rightarrow> matrix \<Rightarrow> ndarray option \<Rightarrow> matrix \<Rightarrow> int
     \<Rightarrow> py_error + GraphFactorization \<times> matrix option" where
  "run_sgd self a prevEmbed x num_iter =
     (case sgd_loop self a prevEmbed [0 ..< nat num_iter] (x, None, printed self) of
        Inl err \<Rightarrow> Inl err
      | Inr r \<Rightarrow> Inr (self\<lparr>self_X := Some (fst r), printed := snd r\<rparr>, Some (fst r)))"

definition learn_embedding ::
  "numpy \<Rightarrow> GraphFactorization \<Rightarrow> snapshot \<Rightarrow> embedding option
     \<Rightarrow> py_error + GraphFactorization \<times> matrix option" where
  "learn_embedding lib self graph prevEmbed =
     (let a = transform_DiGraph_to_adj graph
      in if \<not> allclose (transpose a) a
         then Inr (self\<lparr>printed := printed self @ [NotSymmetric]\<rparr>, None)
         else
           (let x0 = random_init lib (randn_calls self) (length a) (self_d self);
                self1 = self\<lparr>self_node_num := Some (length a),
                              self_num_iter := Some (self_n_iter self),
                              self_X := Some x0,
                              randn_calls := randn_calls self + 1\<rparr>
            in case prevEmbed of
                 None \<Rightarrow> run_sgd self1 a None x0 (self_n_iter self)
               | Some NoneArray \<Rightarrow> Inl IndexError
               | Some (Array p) \<Rightarrow>
                   (case assign_prev (self_d self) x0 p of
                      Inl err \<Rightarrow> Inl err
                    | Inr x1 \<Rightarrow>
                        run_sgd (self1\<lparr>self_X := Some x1,
                                       self_num_iter := Some (self_n_iter_sub self),
                                       printed := printed self @ [InitFromPrev]\<rparr>)
                          a (Some p) x1 (self_n_iter_sub self))))"

subsection \<open>learn_embeddings\<close>

text \<open>
  The computation of \<open>self._kappa / S_sum\<close> from the adjacency matrices of two
  consecutive snapshots.
\<close>

definition compute_kappas :: "numpy \<Rightarrow> real \<Rightarrow> matrix \<Rightarrow> matrix \<Rightarrow> py_error + vec" where
  "compute_kappas lib kappa x_prev x_curr =
     (case broadcast_sub x_curr x_prev of
        Inl err \<Rightarrow> Inl err
      | Inr diff \<Rightarrow>
          (let delX = map (map abs) diff;
               beta = 1 / 100
           in case broadcast_sub (eye (length x_curr)) (smul beta delX) of
                Inl err \<Rightarrow> Inl err
              | Inr m_g \<Rightarrow>
                  (let m_l = smul beta delX
                   in case linalg_inv lib m_g of
                        Inl err \<Rightarrow> Inl err
                      | Inr m_g_inv \<Rightarrow>
                          (let s = matmul m_g_inv m_l;
                               s_sum = map sum_list s;
                               s_sum1 = map (\<lambda>v. if v = 0 then 1 / 100 else v) s_sum
                           in Inr (map (\<lambda>v. kappa / v) s_sum1)))))"

definition np_copy :: "nat \<Rightarrow> matrix option \<Rightarrow> embedding" where
  "np_copy d r = (case r of None \<Rightarrow> NoneArray | Some x \<Rightarrow> Array \<lparr>ncols = d, rows = x\<rparr>)"

text \<open>The body of the loop \<open>for i in range(1, len(graphs))\<close>.\<close>

definition driver_step ::
  "numpy \<Rightarrow> snapshot list \<Rightarrow> GraphFactorization \<Rightarrow> nat \<Rightarrow> py_error + GraphFactorization" where
  "driver_step lib graphs self i =
     (let x_curr = transform_DiGraph_to_adj (graphs ! i);
          x_prev = transform_DiGraph_to_adj (graphs ! (i - 1))
      in case compute_kappas lib (self_kappa self) x_prev x_curr of
           Inl err \<Rightarrow> Inl err
         | Inr ks \<Rightarrow>
             (let self1 = self\<lparr>self_kappas := Some (PerNode ks), self_eta := self_eta self / 10\<rparr>
              in case learn_embedding lib self1 (graphs ! i) (Some (self_Xs self1 ! (i - 1))) of
                   Inl err \<Rightarrow> Inl err
                 | Inr r \<Rightarrow>
                     Inr ((fst r)\<lparr>self_Xs := self_Xs (fst r) @ [np_copy (self_d (fst r)) (snd r)]\<rparr>)))"

fun driver_loop ::
  "numpy \<Rightarrow> snapshot list \<Rightarrow> nat list \<Rightarrow> GraphFactorization \<Rightarrow> py_error + GraphFactorization" where
  "driver_loop lib graphs [] self = Inr self"
| "driver_loop lib graphs (i # rest) self =
     (case driver_step lib graphs self i of
        Inl err \<Rightarrow> Inl err
      | Inr self1 \<Rightarrow> driver_loop lib graphs rest self1)"

definition learn_embeddings ::
  "numpy \<Rightarrow> GraphFactorization \<Rightarrow> snapshot list \<Rightarrow> bool
     \<Rightarrow> py_error + GraphFactorization \<times> embedding list" where
  "learn_embeddings lib self graphs prevStepInfo =
     (let self0 = self\<lparr>self_kappas := Some (Scalar (self_kappa self))\<rparr>
      in case graphs of
           [] \<Rightarrow> Inl IndexError
         | g0 # _ \<Rightarrow>
             (case (if prevStepInfo
                    then (case self_initEmbed self0 of
                            None \<Rightarrow> Inl AttributeError
                          | Some e \<Rightarrow> learn_embedding lib self0 g0 (Some (Array e)))
                    else learn_embedding lib self0 g0 None) of
                Inl err \<Rightarrow> Inl err
              | Inr r \<Rightarrow>
                  (case driver_loop lib graphs [1 ..< length graphs]
                          ((fst r)\<lparr>self_Xs := [np_copy (self_d (fst r)) (snd r)]\<rparr>) of
                     Inl err \<Rightarrow> Inl err
                   | Inr self2 \<Rightarrow> Inr (self2, self_Xs self2))))"

subsection \<open>The penalty vector as the specification states it\<close>







subsection \<open>Inputs used in the examples\<close>

text \<open>
  A random source whose samples are all 100, so that a fresh embedding has entries 1,
  with an inverse routine that is exact on the identity matrix; the star on three nodes
  with centre 0; the graph on two nodes with the single edge between them; the directed
  graph on two nodes with the single arc from 0 to 1; the graph on two nodes without
  edges; and an object of dimension 1 that does no iteration on the first snapshot and
  one on each later snapshot.
\<close>

abbreviation example_numpy :: numpy where
  "example_numpy \<equiv> \<lparr>randn = (\<lambda>c i j. 100), linalg_inv = (\<lambda>m. Inr m)\<rparr>"

abbreviation star_graph :: snapshot where
  "star_graph \<equiv> \<lparr>snap_nodes = 3, snap_weight = (\<lambda>i j. if i + j = 0 \<or> 0 < i * j then 0 else 1)\<rparr>"


abbreviation arc_graph :: snapshot where
  "arc_graph \<equiv> \<lparr>snap_nodes = 2, snap_weight = (\<lambda>i j. if i < j then 1 else 0)\<rparr>"

abbreviation empty_graph :: snapshot where
  "empty_graph \<equiv> \<lparr>snap_nodes = 2, snap_weight = (\<lambda>i j. 0)\<rparr>"

abbreviation example_object :: GraphFactorization where
  "example_object \<equiv>
     \<lparr>self_d = 1, self_eta = 10, self_regu = 1, self_n_iter = 0, self_n_iter_sub = 1,
      self_kappa = 1, self_initEmbed = None, self_X = None, self_node_num = None,
      self_num_iter = None, self_kappas = None, self_Xs = [], printed = [], randn_calls = 0\<rparr>"

section \<open>Properties of the ranking metrics\<close>

subsection \<open>Auxiliary facts about the loops\<close>

lemma score_loop_length:
  "length (fst (score_loop g es c i)) = length es \<and>
   length (snd (score_loop g es c i)) = length es"
  by (induction es arbitrary: c i) (simp_all add: Let_def)

lemma removed_loop_length:
  "length (fst (removed_loop pl rs c n j)) = length rs \<and>
   length (snd (removed_loop pl rs c n j)) = length rs"
  by (induction rs arbitrary: c j) (simp_all add: Let_def)

lemma flag_fold:
  "foldl (\<lambda>val k. if P k then True else val) b xs = (b \<or> (\<exists>k\<in>set xs. P k))"
  by (induction xs arbitrary: b) auto

lemma checkedges_Tuple: "checkedges pl (Tuple t) = (\<exists>k\<in>set pl. same_ends k t)"
  by (simp add: checkedges_def flag_fold)

lemma score_loop_snd:
  "snd (score_loop g es c i) = map (\<lambda>e. if has_edge g (fst e) (fst (snd e)) then 1 else 0) es"
  by (induction es arbitrary: c i) (simp_all add: Let_def)

lemma removed_loop_snd:
  "snd (removed_loop pl rs c n j) = map (\<lambda>r. if checkedges pl r then 0 else 1) rs"
  by (induction rs arbitrary: c j) (simp_all add: Let_def)

lemma removed_loop_fst_nth:
  "m < length rs \<Longrightarrow>
   fst (removed_loop pl rs c n j) ! m =
     real (c + length (filter (\<lambda>r. \<not> checkedges pl r) (take (Suc m) rs))) / real (n + j + m + 1)"
proof (induction rs arbitrary: c j m)
  case Nil
  then show ?case by simp
next
  case (Cons r rs)
  show ?case
  proof (cases m)
    case 0
    then show ?thesis by (simp add: Let_def)
  next
    case (Suc m')
    with Cons.prems have "m' < length rs" by simp
    from Cons.IH[OF this] Suc show ?thesis by (simp add: Let_def)
  qed
qed

lemma correct_count_sorted: "correct_count g (sorted_edges pl) = correct_count g pl"
  by (simp add: correct_count_def sorted_edges_def filter_sort)

lemma changed_length:
  "length (fst (computePrecisionCurve_changed pl g rm k)) = length pl + length rm"
  "length (snd (computePrecisionCurve_changed pl g rm k)) = length pl + length rm"
  by (simp_all add: computePrecisionCurve_changed_def Let_def score_loop_length
        removed_loop_length sorted_edges_def)

subsection \<open>C3: the rank bound of the changed-graph precision curve\<close>

text \<open>
  Claim C3: \<open>computePrecisionCurve_changed\<close> returns lists no longer than \<open>max_k\<close>.
  The function computes the clipped \<open>max_k\<close> and then never reads it: both loops run
  over all predictions and all removed edges (\<open>changed_length\<close>). With one prediction,
  no removed edge and \<open>max_k = 0\<close> the returned lists have one entry each.
\<close>

theorem changed_curve_ignores_max_k:
  "computePrecisionCurve_changed [(0, 1, 1 / 2)]
     \<lparr>number_of_nodes = 2, edges = [(0, 1)]\<rparr> [] 0 = ([1], [1])"
  by (simp add: computePrecisionCurve_changed_def Let_def sorted_edges_def has_edge_def
        correct_count_def)

subsection \<open>C4: computeMAP on a ground truth without outgoing edges\<close>

text \<open>
  Claim C4: \<open>computeMAP\<close> never raises on degenerate input, in particular when every
  node has out-degree zero. In that case \<open>count\<close> stays 0 and the final division
  \<open>sum(node_AP) / count\<close> raises \<open>ZeroDivisionError\<close>: here on the graph with one
  node, no edge and no prediction.
\<close>

theorem computeMAP_no_out_edges_raises:
  "computeMAP [] \<lparr>number_of_nodes = 1, edges = []\<rparr> (- 1) = Inl ZeroDivisionError"
  by (simp add: computeMAP_def Let_def out_degree_def)

subsection \<open>C5: the report at a rank equal to the curve's length\<close>

text \<open>
  Claim C5: \<open>getPrecisionReport\<close> prints the precision at rank \<open>p\<close> whenever the curve
  has at least \<open>p\<close> entries. The test in the code is \<open>p < len(prec_curv)\<close>, so a curve of
  exactly \<open>p\<close> entries gets a dash: for a curve of length 2 every column, rank 2 and
  rank \<open>edge_num = 2\<close> included, is a dash.
\<close>

theorem report_dash_at_exact_length:
  "getPrecisionReport fmt [1, 1 / 2] 2 =
     Inr [CHR ''-'', CHR 0x09, CHR ''-'', CHR 0x09, CHR ''-'', CHR 0x09, CHR ''-'', CHR 0x09,
          CHR ''-'', CHR 0x09, CHR ''-'', CHR 0x09, CHR ''-'', CHR 0x09, CHR ''-'']"
  by (simp add: getPrecisionReport_def precision_pos_def py_get_def list_index_def)

subsection \<open>C7: removed edges are ranked after the predictions\<close>

text \<open>
  Claim C7: in \<open>computePrecisionCurve_changed\<close> the first \<open>len(predicted_edge_list)\<close>
  entries are the scores of the ranked predictions (those of \<open>computePrecisionCurve\<close>
  without a rank bound); after them comes one entry per removed edge, in the order of
  the removed-edge list. The indicator of a removed edge is 0 when some prediction has
  the same source and target and 1 otherwise, and the precision at its position is the
  number of correct predictions plus the number of unpredicted removed edges up to and
  including it, divided by the position.
\<close>

theorem removed_edges_scored_after_predictions:
  "take (length pl) (fst (computePrecisionCurve_changed pl g (map Tuple rs) max_k))
     = fst (computePrecisionCurve pl g (- 1))
   \<and> take (length pl) (snd (computePrecisionCurve_changed pl g (map Tuple rs) max_k))
     = snd (computePrecisionCurve pl g (- 1))
   \<and> drop (length pl) (snd (computePrecisionCurve_changed pl g (map Tuple rs) max_k))
     = map (\<lambda>r. if (\<exists>k\<in>set pl. same_ends k r) then 0 else 1) rs
   \<and> (\<forall>j<length rs.
        fst (computePrecisionCurve_changed pl g (map Tuple rs) max_k) ! (length pl + j)
          = real (correct_count g pl
                  + length (filter (\<lambda>r. \<not> (\<exists>k\<in>set pl. same_ends k r)) (take (Suc j) rs)))
            / real (length pl + j + 1))"
proof -
  let ?first = "score_loop g (sorted_edges pl) 0 0"
  let ?second = "removed_loop pl (map Tuple rs) (correct_count g (sorted_edges pl)) (length pl) 0"
  have curve: "computePrecisionCurve_changed pl g (map Tuple rs) max_k
                 = (fst ?first @ fst ?second, snd ?first @ snd ?second)"
    by (simp add: computePrecisionCurve_changed_def Let_def)
  have plain: "computePrecisionCurve pl g (- 1) = ?first"
    by (simp add: computePrecisionCurve_def sorted_edges_def)
  have len1: "length (fst ?first) = length pl" "length (snd ?first) = length pl"
    by (simp_all add: score_loop_length sorted_edges_def)
  have a: "take (length pl) (fst (computePrecisionCurve_changed pl g (map Tuple rs) max_k))
             = fst (computePrecisionCurve pl g (- 1))"
    by (simp add: curve plain len1)
  have b: "take (length pl) (snd (computePrecisionCurve_changed pl g (map Tuple rs) max_k))
             = snd (computePrecisionCurve pl g (- 1))"
    by (simp add: curve plain len1)
  have c: "drop (length pl) (snd (computePrecisionCurve_changed pl g (map Tuple rs) max_k))
             = map (\<lambda>r. if (\<exists>k\<in>set pl. same_ends k r) then 0 else 1) rs"
    by (simp add: curve len1 removed_loop_snd checkedges_Tuple comp_def)
  have d: "fst (computePrecisionCurve_changed pl g (map Tuple rs) max_k) ! (length pl + j)
             = real (correct_count g pl
                     + length (filter (\<lambda>r. \<not> (\<exists>k\<in>set pl. same_ends k r)) (take (Suc j) rs)))
               / real (length pl + j + 1)"
    if "j < length rs" for j
  proof -
    from that have "j < length (map Tuple rs)" by simp
    from removed_loop_fst_nth[OF this, of pl "correct_count g (sorted_edges pl)" "length pl" 0]
    have "fst ?second ! j
            = real (correct_count g pl
                    + length (filter (\<lambda>r. \<not> checkedges pl r) (map Tuple (take (Suc j) rs))))
              / real (length pl + j + 1)"
      by (simp add: correct_count_sorted take_map)
    moreover have "length (filter (\<lambda>r. \<not> checkedges pl r) (map Tuple (take (Suc j) rs)))
                     = length (filter (\<lambda>r. \<not> (\<exists>k\<in>set pl. same_ends k r)) (take (Suc j) rs))"
      by (simp add: filter_map comp_def checkedges_Tuple)
    ultimately show ?thesis
      by (simp add: curve nth_append len1)
  qed
  from a b c d show ?thesis by blast
qed

theorem removed_edges_scored_after_predictions_witness:
  "computePrecisionCurve_changed [(0, 1, 1 / 2)] \<lparr>number_of_nodes = 3, edges = [(0, 2)]\<rparr>
     (map Tuple [(0, 1, 1), (0, 2, 1)]) (- 1) = ([0, 0, 1 / 3], [0, 0, 1])"
  using removed_edges_scored_after_predictions
          [of "[(0, 1, 1 / 2)]" "\<lparr>number_of_nodes = 3, edges = [(0, 2)]\<rparr>"
              "[(0, 1, 1), (0, 2, 1)]" "- 1"]
  by (simp add: computePrecisionCurve_changed_def Let_def sorted_edges_def has_edge_def
        correct_count_def checkedges_def same_ends_def)

section \<open>Properties of the dynamic graph factorization\<close>

subsection \<open>Auxiliary facts\<close>

lemmas eval_defs =
  learn_embeddings_def learn_embedding_def transform_DiGraph_to_adj_def allclose_def
  run_sgd_def random_init_def np_copy_def driver_step_def compute_kappas_def
  broadcast_sub_def bdim_def bget_def eye_def smul_def scale_def matmul_def dot_def
  assign_prev_def prev_row_def edgeList_def edge_step_def vsub_def vadd_def Let_def
  upt_conv_Cons getFVal_def msub_def norm_fro_def

lemma transform_length: "length (transform_DiGraph_to_adj g) = snap_nodes g"
  by (simp add: transform_DiGraph_to_adj_def)

lemma transform_nth:
  "i < snap_nodes g \<Longrightarrow> j < snap_nodes g \<Longrightarrow>
   transform_DiGraph_to_adj g ! i ! j = snap_weight g i j"
  by (simp add: transform_DiGraph_to_adj_def)

lemma transform_row_length:
  "i < snap_nodes g \<Longrightarrow> length (transform_DiGraph_to_adj g ! i) = snap_nodes g"
  by (simp add: transform_DiGraph_to_adj_def)

lemma transform_square:
  "transform_DiGraph_to_adj g =
     map (\<lambda>i. map (\<lambda>j. snap_weight g i j) [0 ..< snap_nodes g]) [0 ..< snap_nodes g]"
  by (simp add: transform_DiGraph_to_adj_def)

lemma transpose_square:
  "transpose (map (\<lambda>i. map (\<lambda>j. f i j) [0 ..< n]) [0 ..< n])
     = map (\<lambda>j. map (\<lambda>i. f i j) [0 ..< n]) [0 ..< n]"
proof -
  let ?m = "map (\<lambda>i. map (\<lambda>j. f i j) [0 ..< n]) [0 ..< n]"
  have "transpose ?m = map (\<lambda>i. map (\<lambda>j. ?m ! j ! i) [0 ..< length ?m]) [0 ..< n]"
    by (rule transpose_rectangle) simp_all
  also have "\<dots> = map (\<lambda>j. map (\<lambda>i. f i j) [0 ..< n]) [0 ..< n]"
    by simp
  finally show ?thesis .
qed

text \<open>The symmetry test of \<open>learn_embedding\<close>, entry by entry.\<close>

lemma allclose_transform:
  "allclose (transpose (transform_DiGraph_to_adj g)) (transform_DiGraph_to_adj g) =
     (\<forall>i<snap_nodes g. \<forall>j<snap_nodes g.
        \<bar>snap_weight g j i - snap_weight g i j\<bar> \<le> 1 / 10 ^ 8 + \<bar>snap_weight g i j\<bar> / 10 ^ 5)"
  unfolding transform_square transpose_square
  by (simp add: allclose_def list_all_length)

lemma edge_step_skip: "snd e \<le> fst e \<Longrightarrow> edge_step self a prevEmbed st e = st"
  by (simp add: edge_step_def Let_def)

lemma foldl_edge_step_skip:
  "list_all (\<lambda>e. snd e \<le> fst e) es \<Longrightarrow> foldl (edge_step self a prevEmbed) st es = st"
  by (induction es arbitrary: st) (simp_all add: edge_step_skip)

lemma edgeList_lower:
  assumes "\<And>i j. i < j \<Longrightarrow> j < snap_nodes g \<Longrightarrow> snap_weight g i j \<le> 0"
  shows "list_all (\<lambda>e. snd e \<le> fst e) (edgeList (transform_DiGraph_to_adj g))"
proof -
  have "snd e \<le> fst e" if "e \<in> set (edgeList (transform_DiGraph_to_adj g))" for e
  proof -
    from that obtain i j where e: "e = (i, j)" and i: "i < snap_nodes g"
      and j: "j < snap_nodes g" and pos: "transform_DiGraph_to_adj g ! i ! j > 0"
      by (auto simp: edgeList_def transform_length transform_row_length)
    from pos i j have "snap_weight g i j > 0" by (simp add: transform_nth)
    with assms[of i j] j have "\<not> i < j" by fastforce
    with e show ?thesis by simp
  qed
  then show ?thesis by (simp add: list_all_iff)
qed

lemma sgd_loop_unbound:
  assumes "list_all (\<lambda>e. snd e \<le> fst e) (edgeList a)" and "1 \<le> n"
  shows "sgd_loop self a prevEmbed [0 ..< nat n] (x, None, out) = Inl UnboundLocalError"
proof -
  from assms(2) have "[0 ..< nat n] = 0 # [1 ..< nat n]"
    by (simp add: upt_conv_Cons)
  then show ?thesis
    by (simp add: Let_def foldl_edge_step_skip[OF assms(1)])
qed

lemma run_sgd_unbound:
  assumes "list_all (\<lambda>e. snd e \<le> fst e) (edgeList a)" and "1 \<le> n"
  shows "run_sgd self a prevEmbed x n = Inl UnboundLocalError"
  by (simp add: run_sgd_def sgd_loop_unbound[OF assms])


text \<open>What a call of \<open>learn_embedding\<close> that returns leaves unchanged.\<close>

lemma run_sgd_keeps:
  "run_sgd self a prevEmbed x n = Inr r \<Longrightarrow>
     self_eta (fst r) = self_eta self \<and> self_Xs (fst r) = self_Xs self
   \<and> self_kappas (fst r) = self_kappas self \<and> self_d (fst r) = self_d self
   \<and> self_kappa (fst r) = self_kappa self"
  by (auto simp: run_sgd_def split: sum.splits)

lemma learn_embedding_keeps:
  "learn_embedding lib self g prevEmbed = Inr r \<Longrightarrow>
     self_eta (fst r) = self_eta self \<and> self_Xs (fst r) = self_Xs self
   \<and> self_kappas (fst r) = self_kappas self \<and> self_d (fst r) = self_d self
   \<and> self_kappa (fst r) = self_kappa self"
  by (auto simp: learn_embedding_def Let_def
        split: if_splits option.splits embedding.splits sum.splits dest!: run_sgd_keeps)

lemma driver_step_eta:
  "driver_step lib graphs self i = Inr self' \<Longrightarrow>
     self_eta self' = self_eta self / 10 \<and> length (self_Xs self') = length (self_Xs self) + 1"
  by (auto simp: driver_step_def Let_def split: sum.splits dest!: learn_embedding_keeps)

lemma driver_loop_eta:
  "driver_loop lib graphs idx self = Inr self' \<Longrightarrow>
     self_eta self' = self_eta self / 10 ^ length idx
   \<and> length (self_Xs self') = length (self_Xs self) + length idx"
proof (induction idx arbitrary: self)
  case Nil
  then show ?case by simp
next
  case (Cons i idx)
  from Cons.prems obtain s1 where s1: "driver_step lib graphs self i = Inr s1"
    and rest: "driver_loop lib graphs idx s1 = Inr self'"
    by (auto split: sum.splits)
  from driver_step_eta[OF s1] have "self_eta s1 = self_eta self / 10"
    and "length (self_Xs s1) = length (self_Xs self) + 1" by simp_all
  with Cons.IH[OF rest] show ?case by simp
qed






text \<open>The optimisation loop never reads \<open>self._kappas\<close>.\<close>

lemma edge_step_kappas: "edge_step (self\<lparr>self_kappas := k\<rparr>) = edge_step self"
  by (auto simp: edge_step_def fun_eq_iff Let_def split: option.splits)

lemma getFVal_kappas: "getFVal (self\<lparr>self_kappas := k\<rparr>) = getFVal self"
  by (auto simp: getFVal_def fun_eq_iff Let_def split: option.splits)

lemma sgd_loop_kappas:
  "sgd_loop (self\<lparr>self_kappas := k\<rparr>) a prevEmbed its st = sgd_loop self a prevEmbed its st"
  by (induction its arbitrary: st)
     (simp_all add: edge_step_kappas getFVal_kappas Let_def split: option.splits)

subsection \<open>C1: the weight of the smoothness term\<close>

text \<open>
  Claim C1: at every step \<open>t \<ge> 1\<close> the smoothness gradient of node \<open>i\<close> is weighted by
  the per-node value \<open>\<kappa>_t[i]\<close>. The driver stores the per-node vector in
  \<open>self._kappas\<close>, but \<open>learn_embedding\<close> multiplies by the scalar \<open>self._kappa\<close> and does
  not read \<open>self._kappas\<close> (\<open>sgd_loop_kappas\<close>). On two equal snapshots of the star on three
  nodes the stored vector is \<open>[100, 100, 100]\<close> while \<open>self._kappa\<close> is 1. Step 1 starts
  from rows \<open>[1], [1], [1]\<close> with learning rate 1; the edge \<open>(0, 1)\<close> moves row 0 to
  \<open>[0]\<close>, and the edge \<open>(0, 2)\<close> then gives it the gradient \<open>-1 + 0 + \<kappa> (0 - 1)\<close>: the
  result \<open>[2]\<close> is the one for \<open>\<kappa> = 1\<close>, where \<open>\<kappa> = 100\<close> would give \<open>[101]\<close>.
\<close>

theorem driver_ignores_per_node_kappas:
  "map_sum id (\<lambda>r. (self_kappa (fst r), self_kappas (fst r), snd r))
     (learn_embeddings example_numpy example_object [star_graph, star_graph] False)
   = Inr (1, Some (PerNode [100, 100, 100]),
          [Array \<lparr>ncols = 1, rows = [[1], [1], [1]]\<rparr>,
           Array \<lparr>ncols = 1, rows = [[2], [1], [1]]\<rparr>])"
  by (simp add: eval_defs)

subsection \<open>C2: an adjacency matrix that is not symmetric\<close>

text \<open>
  Claim C2: on a graph whose adjacency matrix is not symmetric \<open>learn_embedding\<close> raises
  an error. It prints a message and returns \<open>None\<close> instead: on the graph with the
  single arc from 0 to 1 the call returns normally, and the object is unchanged.
\<close>

theorem asymmetric_graph_returns_None:
  "learn_embedding example_numpy example_object arc_graph None
     = Inr (example_object\<lparr>printed := [NotSymmetric]\<rparr>, None)"
  by (simp add: eval_defs)

text \<open>
  Claim C2 as amended: whenever some pair of entries fails the test of \<open>np.allclose\<close>,
  \<open>|A[j,i] - A[i,j]| > 1e-8 + 1e-5 |A[i,j]|\<close>, \<open>learn_embedding\<close> prints the message and
  returns \<open>None\<close> without raising, whatever the previous embedding; no attribute of the
  object is assigned, so no embedding is produced or stored.
\<close>

theorem not_allclose_returns_None:
  assumes "i < snap_nodes g" and "j < snap_nodes g"
    and "\<bar>snap_weight g j i - snap_weight g i j\<bar> > 1 / 10 ^ 8 + \<bar>snap_weight g i j\<bar> / 10 ^ 5"
  shows "learn_embedding lib self g prevEmbed
           = Inr (self\<lparr>printed := printed self @ [NotSymmetric]\<rparr>, None)"
proof -
  from assms have "\<not> allclose (transpose (transform_DiGraph_to_adj g)) (transform_DiGraph_to_adj g)"
    unfolding allclose_transform by (meson not_le)
  then show ?thesis by (simp add: learn_embedding_def Let_def)
qed

theorem not_allclose_returns_None_witness:
  "learn_embedding example_numpy example_object arc_graph (Some NoneArray)
     = Inr (example_object\<lparr>printed := [NotSymmetric]\<rparr>, None)"
  using not_allclose_returns_None[of 0 arc_graph 1 example_numpy example_object "Some NoneArray"]
  by simp

subsection \<open>C6: the penalty vector\<close>




subsection \<open>C8: the decay of the learning rate\<close>

text \<open>
  Claim C8: every step after the first divides \<open>eta\<close> by 10, once, and nothing resets
  it: a step of the driver that returns leaves \<open>eta / 10\<close>, and a run over \<open>L\<close> snapshots
  that returns leaves \<open>eta / 10 ^ (L - 1)\<close> and \<open>L\<close> embeddings. On three snapshots the
  rate 10 ends as 1 / 10.
\<close>

theorem eta_decays_once_per_later_step:
  "(driver_step lib graphs self i = Inr self1 \<longrightarrow> self_eta self1 = self_eta self / 10)
   \<and> (learn_embeddings lib self graphs prevStepInfo = Inr (self2, xs) \<longrightarrow>
        self_eta self2 = self_eta self / 10 ^ (length graphs - 1) \<and> length xs = length graphs)"
proof -
  have "self_eta self2 = self_eta self / 10 ^ (length graphs - 1) \<and> length xs = length graphs"
    if run: "learn_embeddings lib self graphs prevStepInfo = Inr (self2, xs)"
  proof -
    let ?self0 = "self\<lparr>self_kappas := Some (Scalar (self_kappa self))\<rparr>"
    from run obtain g0 gs where graphs: "graphs = g0 # gs"
      by (cases graphs) (auto simp: learn_embeddings_def Let_def)
    from run graphs obtain r prev where
      first: "learn_embedding lib ?self0 g0 prev = Inr r"
      and loop: "driver_loop lib graphs [1 ..< length graphs]
                   ((fst r)\<lparr>self_Xs := [np_copy (self_d (fst r)) (snd r)]\<rparr>) = Inr self2"
      and xs: "xs = self_Xs self2"
      by (auto simp: learn_embeddings_def Let_def split: sum.splits if_splits option.splits)
    from learn_embedding_keeps[OF first] have "self_eta (fst r) = self_eta self" by simp
    moreover have "length [1 ..< length graphs] = length graphs - 1" by simp
    moreover have "1 + (length graphs - 1) = length graphs" using graphs by simp
    moreover note driver_loop_eta[OF loop]
    ultimately show ?thesis using xs by (simp del: upt_Suc)
  qed
  then show ?thesis by (auto dest: driver_step_eta)
qed

theorem eta_decays_once_per_later_step_witness:
  "map_sum id (\<lambda>r. (self_eta (fst r), length (snd r)))
     (learn_embeddings example_numpy example_object [star_graph, star_graph, star_graph] False)
   = Inr (1 / 10, 3)"
proof -
  have "\<exists>s xs. learn_embeddings example_numpy example_object
                 [star_graph, star_graph, star_graph] False = Inr (s, xs)"
    by (simp add: eval_defs)
  then obtain s xs where run:
    "learn_embeddings example_numpy example_object [star_graph, star_graph, star_graph] False
       = Inr (s, xs)"
    by blast
  from eta_decays_once_per_later_step
         [of example_numpy "[star_graph, star_graph, star_graph]" example_object 1
             example_object False s xs] run
  have "self_eta s = 10 / 10 ^ 2 \<and> length xs = 3" by simp
  with run show ?thesis by simp
qed

subsection \<open>C9: the warm start\<close>



subsection \<open>C10: a graph without an edge above the diagonal\<close>

text \<open>
  Claim C10: when the adjacency matrix passes the symmetry test and has no positive
  entry \<open>A[i,j]\<close> with \<open>i < j\<close>, and the iteration count is at least 1, \<open>learn_embedding\<close>
  returns no embedding. Without a previous embedding, and with one that the
  initialisation accepts, iteration 0 ends in \<open>UnboundLocalError\<close>: the edge loop has
  assigned nothing and the diagnostic line reads \<open>delPhi\<close>. With any other previous
  embedding the call has already failed in the initialisation.
\<close>

theorem no_upper_edge_unbound_delPhi:
  assumes sym: "allclose (transpose (transform_DiGraph_to_adj g)) (transform_DiGraph_to_adj g)"
    and nopos: "\<And>i j. i < j \<Longrightarrow> j < snap_nodes g \<Longrightarrow> snap_weight g i j \<le> 0"
  shows "(1 \<le> self_n_iter self \<longrightarrow> learn_embedding lib self g None = Inl UnboundLocalError)
       \<and> (1 \<le> self_n_iter_sub self
            \<and> assign_prev (self_d self)
                (random_init lib (randn_calls self) (snap_nodes g) (self_d self)) p = Inr x1
          \<longrightarrow> learn_embedding lib self g (Some (Array p)) = Inl UnboundLocalError)
       \<and> (1 \<le> self_n_iter_sub self \<longrightarrow> (\<exists>err. learn_embedding lib self g (Some e) = Inl err))"
proof -
  note low = edgeList_lower[of g, OF nopos]
  have a: "learn_embedding lib self g None = Inl UnboundLocalError" if "1 \<le> self_n_iter self"
    using sym that by (simp add: learn_embedding_def Let_def run_sgd_unbound[OF low])
  have b: "learn_embedding lib self g (Some (Array q)) = Inl UnboundLocalError"
    if "1 \<le> self_n_iter_sub self"
      and "assign_prev (self_d self)
             (random_init lib (randn_calls self) (snap_nodes g) (self_d self)) q = Inr y"
    for q y
    using sym that
    by (simp add: learn_embedding_def Let_def run_sgd_unbound[OF low] transform_length)
  have c: "\<exists>err. learn_embedding lib self g (Some e) = Inl err" if "1 \<le> self_n_iter_sub self"
  proof (cases e)
    case NoneArray
    with sym show ?thesis by (simp add: learn_embedding_def Let_def)
  next
    case (Array q)
    show ?thesis
    proof (cases "assign_prev (self_d self)
             (random_init lib (randn_calls self) (snap_nodes g) (self_d self)) q")
      case (Inl err)
      with sym Array show ?thesis
        by (simp add: learn_embedding_def Let_def transform_length)
    next
      case (Inr y)
      from b[OF that Inr] Array show ?thesis by simp
    qed
  qed
  from a b c show ?thesis by blast
qed

theorem no_upper_edge_unbound_delPhi_witness:
  "learn_embedding example_numpy (example_object\<lparr>self_n_iter := 1\<rparr>) empty_graph None
     = Inl UnboundLocalError
   \<and> learn_embedding example_numpy example_object empty_graph
       (Some (Array \<lparr>ncols = 1, rows = [[5]]\<rparr>)) = Inl UnboundLocalError"
proof -
  have sym: "allclose (transpose (transform_DiGraph_to_adj empty_graph))
               (transform_DiGraph_to_adj empty_graph)"
    by (simp add: allclose_transform)
  have nopos: "\<And>i j. i < j \<Longrightarrow> j < snap_nodes empty_graph \<Longrightarrow> snap_weight empty_graph i j \<le> 0"
    by simp
  from no_upper_edge_unbound_delPhi[OF sym nopos, of "example_object\<lparr>self_n_iter := 1\<rparr>"
         example_numpy "\<lparr>ncols = 1, rows = [[5]]\<rparr>" "[[5], [1]]" NoneArray]
  have one: "learn_embedding example_numpy (example_object\<lparr>self_n_iter := 1\<rparr>) empty_graph None
               = Inl UnboundLocalError"
    by simp
  from no_upper_edge_unbound_delPhi[OF sym nopos, of example_object
         example_numpy "\<lparr>ncols = 1, rows = [[5]]\<rparr>" "[[5], [1]]" NoneArray]
  have two: "learn_embedding example_numpy example_object empty_graph
               (Some (Array \<lparr>ncols = 1, rows = [[5]]\<rparr>)) = Inl UnboundLocalError"
    by (simp add: assign_prev_def prev_row_def random_init_def upt_conv_Cons)
  from one two show ?thesis by simp
qed

end
